theory Spec2Isabelle
  imports Main "HOL-Library.Word"
begin

section \<open>Data model of web-handlers.go\<close>

text \<open>
  The handlers of \<^verbatim>\<open>web-handlers.go\<close> are methods that receive a request, an argument
  struct and a pointer to a reply struct, and return an error. The embedding passes the
  reply in and returns it updated together with the error (\<open>None\<close> for Go's \<open>nil\<close>), and
  threads a world state that records every call made to a collaborator.
\<close>

type_synonym time = int
  \<comment> \<open>\<open>time.Time\<close> as an offset from Go's zero instant: the zero value is \<open>0\<close>.\<close>

text \<open>\<open>credential{args.AccessKey, args.SecretKey}\<close>: the struct's two fields in order.\<close>

record credential =
  AccessKeyID :: string
  SecretAccessKey :: string

text \<open>\<open>json2.Error\<close>: the handlers set \<open>Message\<close>, and \<open>Login\<close> also \<open>Data\<close>.\<close>

record json2_Error =
  Message :: string
  Data :: "string option"

definition json2_Message :: "string \<Rightarrow> json2_Error" where
  "json2_Message m = \<lparr>Message = m, Data = None\<rparr>"

text \<open>
  The error values that reach \<open>writeWebErrorResponse\<close>: the package variable
  \<open>errInvalidToken\<close>, the eight \<open>fs\<close> error types of its type switch (each with the text
  of its fields), and every other error.
\<close>

datatype go_error =
    ErrInvalidToken
  | RootPathFull string
  | BucketNotFound string
  | BucketNameInvalid string
  | BadDigest string
  | IncompleteBody string
  | ObjectExistsAsPrefix string
  | ObjectNotFound string
  | ObjectNameInvalid string
  | OtherError string

datatype APIErrorCode =
    ErrRootPathFull
  | ErrNoSuchBucket
  | ErrInvalidBucketName
  | ErrBadDigest
  | ErrIncompleteBody
  | ErrObjectExistsAsPrefix
  | ErrNoSuchKey
  | ErrInternalError

record APIError =
  HTTPStatusCode :: int
  Description :: string

text \<open>\<open>http.ResponseWriter\<close> as the sequence of calls made on it.\<close>

datatype w_op =
    WriteHeader int
  | Write string
  | HeaderSet string string

type_synonym ResponseWriter = "w_op list"

text \<open>\<open>http.Request\<close>: the parts the handlers read.\<close>

record Request =
  Header :: "(string \<times> string) list"
  Form :: "(string \<times> string) list"
  URL_Query :: "(string \<times> string) list"
  Vars :: "(string \<times> string) list"
  Body :: string

text \<open>\<open>Values.Get\<close> and a lookup in \<open>mux.Vars\<close>: the first value of the key, or the empty string.\<close>

fun Get :: "(string \<times> string) list \<Rightarrow> string \<Rightarrow> string" where
  "Get [] k = []"
| "Get ((k', v) # kvs) k = (if k' = k then v else Get kvs k)"

subsection \<open>Tokens\<close>

datatype SigningMethod =
    SigningMethodHMAC string
  | SigningMethodRSA string
  | SigningMethodECDSA string
  | SigningMethodOther string

record Token =
  Raw :: string
  Method :: SigningMethod
  Header_alg :: string
  Valid :: bool

text \<open>The type assertion \<open>token.Method.(*jwtgo.SigningMethodHMAC)\<close>.\<close>

fun is_SigningMethodHMAC :: "SigningMethod \<Rightarrow> bool" where
  "is_SigningMethodHMAC (SigningMethodHMAC _) = True"
| "is_SigningMethodHMAC _ = False"

record JWT =
  jwt_credential :: credential

subsection \<open>Backend data\<close>

record disk_Info =
  Total :: "64 word"
  Free :: "64 word"
  Files :: "64 word"
  FFree :: "64 word"
  FSType :: string

record MemStats =
  Alloc :: "64 word"
  TotalAlloc :: "64 word"
  HeapAlloc :: "64 word"
  HeapSys :: "64 word"

record BucketMetadata =
  bm_Name :: string
  bm_Created :: time

text \<open>
  Modelled from the spec: the declaration of \<open>fs.ObjectInfo\<close> is not part of the source
  file; the handler reads \<open>Name\<close>, \<open>ModifiedTime\<close> and \<open>Size\<close>, and the content type of the
  backend object is the fourth attribute the specification lists.
\<close>

record fs_ObjectInfo =
  oi_Name :: string
  oi_ModifiedTime :: time
  oi_Size :: "64 word"
  oi_ContentType :: string

record ListObjectsResult =
  IsTruncated :: bool
  NextMarker :: string
  Objects :: "fs_ObjectInfo list"
  Prefixes :: "string list"

subsection \<open>Arguments and replies\<close>

record GenericRep =
  gr_UIVersion :: string

record ServerInfoRep =
  MinioVersion :: string
  MinioMemory :: string
  MinioPlatform :: string
  MinioRuntime :: string
  si_UIVersion :: string

record DiskInfoRep =
  DiskInfo_f :: disk_Info
  di_UIVersion :: string

record MakeBucketArgs =
  mb_BucketName :: string

record BucketInfo =
  Name :: string
  CreationDate :: time

record ListBucketsRep =
  Buckets :: "BucketInfo list"
  lb_UIVersion :: string

record ListObjectsArgs =
  lo_BucketName :: string
  lo_Prefix :: string

record ObjectInfo =
  Key :: string
  LastModified :: time
  Size :: "64 word"
  ContentType :: string

record ListObjectsRep =
  lor_Objects :: "ObjectInfo list"
  lor_UIVersion :: string

record RemoveObjectArgs =
  TargetHost :: string
  ro_BucketName :: string
  ro_ObjectName :: string

record LoginArgs =
  Username :: string
  Password :: string

record LoginRep =
  lg_Token :: string
  lg_UIVersion :: string

record GenerateAuthReply =
  ga_AccessKey :: string
  ga_SecretKey :: string
  ga_UIVersion :: string

record SetAuthArgs =
  sa_AccessKey :: string
  sa_SecretKey :: string

record SetAuthReply =
  sa_Token :: string
  sa_UIVersion :: string

record GetAuthReply =
  gt_AccessKey :: string
  gt_SecretKey :: string
  gt_UIVersion :: string

section \<open>The world and the collaborators\<close>

text \<open>Every call a handler makes to a collaborator, with its arguments.\<close>

datatype call =
    Call_Hostname
  | Call_ReadMemStats
  | Call_GetRootPath
  | Call_disk_GetInfo string
  | Call_MakeBucket string
  | Call_ListBuckets
  | Call_ListObjects string string string string int
  | Call_DeleteObject string string
  | Call_Authenticate string string
  | Call_GenerateToken string
  | Call_mustGenAccessKeys
  | Call_SetCredential credential
  | Call_Save
  | Call_GetCredential
  | Call_CreateObject string string int string
  | Call_GetObject string string int int

text \<open>
  The world: the log of collaborator calls, the active credential held by \<open>serverConfig\<close>,
  and the state \<open>'s\<close> of everything outside the process image (disk, clock, random source).
\<close>

record 's world =
  calls :: "call list"
  serverConfig :: credential
  backend :: 's

definition log_call :: "call \<Rightarrow> 's world \<Rightarrow> 's world" where
  "log_call c w = w\<lparr>calls := calls w @ [c]\<rparr>"

text \<open>
  The collaborators whose code is outside the source file are parameters: the storage
  backend \<open>web.Filesystem\<close>, \<open>disk.GetInfo\<close>, the persistence of the configuration, the
  token issuer, the primitives of the jwt-go library, the API error table, and the
  constants and formatting helpers of the runtime.
\<close>

record 's env =
  fs_GetRootPath :: "'s \<Rightarrow> string"
  disk_GetInfo :: "'s \<Rightarrow> string \<Rightarrow> go_error + disk_Info"
  fs_MakeBucket :: "'s \<Rightarrow> string \<Rightarrow> go_error option \<times> 's"
  fs_ListBuckets :: "'s \<Rightarrow> (go_error + BucketMetadata list) \<times> 's"
  fs_ListObjects :: "'s \<Rightarrow> string \<Rightarrow> string \<Rightarrow> string \<Rightarrow> string \<Rightarrow> int
                      \<Rightarrow> (go_error + ListObjectsResult) \<times> 's"
  fs_DeleteObject :: "'s \<Rightarrow> string \<Rightarrow> string \<Rightarrow> go_error option \<times> 's"
  fs_CreateObject :: "'s \<Rightarrow> string \<Rightarrow> string \<Rightarrow> int \<Rightarrow> string \<Rightarrow> go_error option \<times> 's"
  fs_GetObject :: "'s \<Rightarrow> string \<Rightarrow> string \<Rightarrow> int \<Rightarrow> int \<Rightarrow> (w_op list \<times> go_error option) \<times> 's"
  config_Save :: "'s \<Rightarrow> credential \<Rightarrow> go_error option \<times> 's"
  jwt_Authenticate :: "JWT \<Rightarrow> string \<Rightarrow> string \<Rightarrow> bool"
  jwt_GenerateToken :: "'s \<Rightarrow> JWT \<Rightarrow> string \<Rightarrow> go_error + string"
  mustGenAccessKeys :: "'s \<Rightarrow> credential \<times> 's"
  jwt_token_of_request :: "Request \<Rightarrow> string option"
  jwt_decode :: "string \<Rightarrow> Token option"
  jwt_verify :: "'s \<Rightarrow> Token \<Rightarrow> string \<Rightarrow> bool"
  getAPIError :: "APIErrorCode \<Rightarrow> APIError"
  Error :: "go_error \<Rightarrow> string"
  probe_String :: "go_error \<Rightarrow> string"
  reservedBucket :: string
  filepath_Base :: "string \<Rightarrow> string"
  UIVersion :: string
  minioVersion :: string
  os_Hostname :: "'s \<Rightarrow> go_error + string"
  runtime_ReadMemStats :: "'s \<Rightarrow> MemStats"
  humanize_Bytes :: "64 word \<Rightarrow> string"
  runtime_GOOS :: string
  runtime_GOARCH :: string
  runtime_Version :: string
  runtime_NumCPU :: int
  strconv_Itoa :: "int \<Rightarrow> string"

section \<open>Token verification\<close>

text \<open>
  Modelled from the spec: \<open>initJWT\<close> is defined outside the source file; the verifier
  checks tokens against the secret of the active credential pair, so the \<open>JWT\<close> value it
  returns carries the credential that \<open>serverConfig\<close> holds.
\<close>

definition initJWT :: "'s world \<Rightarrow> JWT" where
  "initJWT w = \<lparr>jwt_credential = serverConfig w\<rparr>"

text \<open>
  The key function both verification paths pass to the parser: it refuses every token
  whose method is not of the HMAC type, and otherwise hands out the secret key.
\<close>

definition keyFunc :: "JWT \<Rightarrow> Token \<Rightarrow> string + string" where
  "keyFunc jwt token =
     (if \<not> is_SigningMethodHMAC (Method token)
      then Inl (''Unexpected signing method: '' @ Header_alg token)
      else Inr (SecretAccessKey (jwt_credential jwt)))"

text \<open>
  Modelled from the spec: \<open>jwtgo.Parse\<close> and \<open>jwtgo.ParseFromRequest\<close> belong to the jwt-go
  library, outside the source file. The parser decodes the token string and resolves its
  declared algorithm (\<open>jwt_decode\<close>), asks the key function for the key and fails with the
  key function's error, and then checks the time claims and the signature under that key
  (\<open>jwt_verify\<close>); only a token that passes all of this is returned without error, marked
  valid.
\<close>

definition jwtgo_Parse ::
  "'s env \<Rightarrow> 's \<Rightarrow> string \<Rightarrow> (Token \<Rightarrow> string + string) \<Rightarrow> string + Token" where
  "jwtgo_Parse env s tokenString kf =
     (case jwt_decode env tokenString of
        None \<Rightarrow> Inl ''token is malformed or its signing method is unavailable''
      | Some token \<Rightarrow>
          (case kf token of
             Inl e \<Rightarrow> Inl e
           | Inr key \<Rightarrow>
               if jwt_verify env s token key then Inr (token\<lparr>Valid := True\<rparr>)
               else Inl ''token is invalid''))"

definition jwtgo_ParseFromRequest ::
  "'s env \<Rightarrow> 's \<Rightarrow> Request \<Rightarrow> (Token \<Rightarrow> string + string) \<Rightarrow> string + Token" where
  "jwtgo_ParseFromRequest env s req kf =
     (case jwt_token_of_request env req of
        None \<Rightarrow> Inl ''no token present in request''
      | Some tokenString \<Rightarrow> jwtgo_Parse env s tokenString kf)"

definition isJWTReqAuthenticated :: "'s env \<Rightarrow> Request \<Rightarrow> 's world \<Rightarrow> bool" where
  "isJWTReqAuthenticated env req w =
     (let jwt = initJWT w in
      case jwtgo_ParseFromRequest env (backend w) req (keyFunc jwt) of
        Inl e \<Rightarrow> False
      | Inr token \<Rightarrow> Valid token)"

section \<open>The RPC methods\<close>

definition Unauthorized :: json2_Error where
  "Unauthorized = json2_Message ''Unauthorized request''"

type_synonym GenericArgs = unit

text \<open>\<open>ServerInfo\<close> - get server info.\<close>

definition ServerInfo ::
  "'s env \<Rightarrow> Request \<Rightarrow> GenericArgs \<Rightarrow> ServerInfoRep \<Rightarrow> 's world
     \<Rightarrow> (ServerInfoRep \<times> json2_Error option) \<times> 's world" where
  "ServerInfo env r args reply w =
     (if \<not> isJWTReqAuthenticated env r w then ((reply, Some Unauthorized), w)
      else
        let w1 = log_call Call_Hostname w;
            host = (case os_Hostname env (backend w1) of Inl err \<Rightarrow> [] | Inr h \<Rightarrow> h);
            w2 = log_call Call_ReadMemStats w1;
            memstats = runtime_ReadMemStats env (backend w2);
            mem = ''Used: '' @ humanize_Bytes env (Alloc memstats)
                @ '' | Allocated: '' @ humanize_Bytes env (TotalAlloc memstats)
                @ '' | Used-Heap: '' @ humanize_Bytes env (HeapAlloc memstats)
                @ '' | Allocated-Heap: '' @ humanize_Bytes env (HeapSys memstats);
            platform = ''Host: '' @ host @ '' | OS: '' @ runtime_GOOS env
                @ '' | Arch: '' @ runtime_GOARCH env;
            goruntime = ''Version: '' @ runtime_Version env
                @ '' | CPUs: '' @ strconv_Itoa env (runtime_NumCPU env)
        in ((reply\<lparr>MinioVersion := minioVersion env, MinioMemory := mem,
                    MinioPlatform := platform, MinioRuntime := goruntime,
                    si_UIVersion := UIVersion env\<rparr>, None), w2))"

text \<open>\<open>DiskInfo\<close> - get disk statistics.\<close>

definition DiskInfo ::
  "'s env \<Rightarrow> Request \<Rightarrow> GenericArgs \<Rightarrow> DiskInfoRep \<Rightarrow> 's world
     \<Rightarrow> (DiskInfoRep \<times> json2_Error option) \<times> 's world" where
  "DiskInfo env r args reply w =
     (if \<not> isJWTReqAuthenticated env r w then ((reply, Some Unauthorized), w)
      else
        let w1 = log_call Call_GetRootPath w;
            root = fs_GetRootPath env (backend w1);
            w2 = log_call (Call_disk_GetInfo root) w1
        in case disk_GetInfo env (backend w2) root of
             Inl e \<Rightarrow> ((reply, Some (json2_Message (Error env e))), w2)
           | Inr info \<Rightarrow>
               ((reply\<lparr>DiskInfo_f := info, di_UIVersion := UIVersion env\<rparr>, None), w2))"

text \<open>\<open>MakeBucket\<close> - make a bucket. The version stamp is written before the backend call.\<close>

definition MakeBucket ::
  "'s env \<Rightarrow> Request \<Rightarrow> MakeBucketArgs \<Rightarrow> GenericRep \<Rightarrow> 's world
     \<Rightarrow> (GenericRep \<times> json2_Error option) \<times> 's world" where
  "MakeBucket env r args reply w =
     (if \<not> isJWTReqAuthenticated env r w then ((reply, Some Unauthorized), w)
      else
        let reply1 = reply\<lparr>gr_UIVersion := UIVersion env\<rparr>;
            (e, s') = fs_MakeBucket env (backend w) (mb_BucketName args);
            w1 = log_call (Call_MakeBucket (mb_BucketName args)) (w\<lparr>backend := s'\<rparr>)
        in case e of
             Some err \<Rightarrow> ((reply1, Some (json2_Message (Error env err))), w1)
           | None \<Rightarrow> ((reply1, None), w1))"

subsection \<open>ListBuckets\<close>

text \<open>
  \<open>path.Base\<close> of Go's standard library: the last element of a slash-separated path,
  after removing trailing slashes; \<open>.\<close> for the empty path and \<open>/\<close> for a path of slashes.
\<close>

definition path_Base :: "string \<Rightarrow> string" where
  "path_Base p =
     (if p = [] then ''.''
      else
        let p1 = rev (dropWhile (\<lambda>c. c = CHR ''/'') (rev p));
            p2 = rev (takeWhile (\<lambda>c. c \<noteq> CHR ''/'') (rev p1))
        in if p2 = [] then ''/'' else p2)"

text \<open>The loop over the backend's buckets: every bucket that is not the private one is appended.\<close>

fun appendBuckets :: "string \<Rightarrow> BucketMetadata list \<Rightarrow> BucketInfo list \<Rightarrow> BucketInfo list" where
  "appendBuckets rb [] acc = acc"
| "appendBuckets rb (bucket # buckets) acc =
     appendBuckets rb buckets
       (if bm_Name bucket \<noteq> rb
        then acc @ [\<lparr>Name = bm_Name bucket, CreationDate = bm_Created bucket\<rparr>]
        else acc)"

definition ListBuckets ::
  "'s env \<Rightarrow> Request \<Rightarrow> GenericArgs \<Rightarrow> ListBucketsRep \<Rightarrow> 's world
     \<Rightarrow> (ListBucketsRep \<times> json2_Error option) \<times> 's world" where
  "ListBuckets env r args reply w =
     (if \<not> isJWTReqAuthenticated env r w then ((reply, Some Unauthorized), w)
      else
        let (res, s') = fs_ListBuckets env (backend w);
            w1 = log_call Call_ListBuckets (w\<lparr>backend := s'\<rparr>)
        in case res of
             Inl e \<Rightarrow> ((reply, Some (json2_Message (Error env e))), w1)
           | Inr buckets \<Rightarrow>
               ((reply\<lparr>Buckets := appendBuckets (path_Base (reservedBucket env)) buckets
                                      (Buckets reply),
                        lb_UIVersion := UIVersion env\<rparr>, None), w1))"

subsection \<open>ListObjects\<close>

text \<open>The two inner loops of a page: its objects, then its common prefixes.\<close>

fun appendObjects :: "fs_ObjectInfo list \<Rightarrow> ObjectInfo list \<Rightarrow> ObjectInfo list" where
  "appendObjects [] acc = acc"
| "appendObjects (obj # objs) acc =
     appendObjects objs
       (acc @ [\<lparr>Key = oi_Name obj, LastModified = oi_ModifiedTime obj,
                Size = oi_Size obj, ContentType = []\<rparr>])"

fun appendPrefixes :: "string list \<Rightarrow> ObjectInfo list \<Rightarrow> ObjectInfo list" where
  "appendPrefixes [] acc = acc"
| "appendPrefixes (prefix # prefixes) acc =
     appendPrefixes prefixes
       (acc @ [\<lparr>Key = prefix, LastModified = 0, Size = 0, ContentType = []\<rparr>])"

text \<open>
  The pagination loop \<open>for { ... }\<close>, from the marker, the reply and the world it has
  reached. It leaves by \<open>return\<close> on a backend error and by \<open>break\<close> on a page that is not
  truncated; \<open>None\<close> is a loop that never leaves.
\<close>

partial_function (option) listObjectsLoop ::
  "'s env \<Rightarrow> ListObjectsArgs \<Rightarrow> string \<Rightarrow> ListObjectsRep \<Rightarrow> 's world
     \<Rightarrow> ((ListObjectsRep \<times> json2_Error option) \<times> 's world) option" where
  "listObjectsLoop env args marker reply w =
     (case fs_ListObjects env (backend w) (lo_BucketName args) (lo_Prefix args) marker ''/'' 1000 of
        (res, s') \<Rightarrow>
          (let w1 = log_call (Call_ListObjects (lo_BucketName args) (lo_Prefix args) marker ''/'' 1000)
                      (w\<lparr>backend := s'\<rparr>)
           in case res of
                Inl err \<Rightarrow> Some ((reply, Some (json2_Message (Error env err))), w1)
              | Inr lo \<Rightarrow>
                  (let reply1 = reply\<lparr>lor_Objects :=
                                   appendPrefixes (Prefixes lo)
                                     (appendObjects (Objects lo) (lor_Objects reply))\<rparr>
                   in if \<not> IsTruncated lo then Some ((reply1, None), w1)
                      else listObjectsLoop env args (NextMarker lo) reply1 w1)))"

definition ListObjects ::
  "'s env \<Rightarrow> Request \<Rightarrow> ListObjectsArgs \<Rightarrow> ListObjectsRep \<Rightarrow> 's world
     \<Rightarrow> ((ListObjectsRep \<times> json2_Error option) \<times> 's world) option" where
  "ListObjects env r args reply w =
     (let marker = [] in
      if \<not> isJWTReqAuthenticated env r w then Some ((reply, Some Unauthorized), w)
      else
        case listObjectsLoop env args marker reply w of
          None \<Rightarrow> None
        | Some ((reply1, Some e), w1) \<Rightarrow> Some ((reply1, Some e), w1)
        | Some ((reply1, None), w1) \<Rightarrow>
            Some ((reply1\<lparr>lor_UIVersion := UIVersion env\<rparr>, None), w1))"

text \<open>\<open>RemoveObject\<close> - removes an object.\<close>

definition RemoveObject ::
  "'s env \<Rightarrow> Request \<Rightarrow> RemoveObjectArgs \<Rightarrow> GenericRep \<Rightarrow> 's world
     \<Rightarrow> (GenericRep \<times> json2_Error option) \<times> 's world" where
  "RemoveObject env r args reply w =
     (if \<not> isJWTReqAuthenticated env r w then ((reply, Some Unauthorized), w)
      else
        let reply1 = reply\<lparr>gr_UIVersion := UIVersion env\<rparr>;
            (e, s') = fs_DeleteObject env (backend w) (ro_BucketName args) (ro_ObjectName args);
            w1 = log_call (Call_DeleteObject (ro_BucketName args) (ro_ObjectName args))
                   (w\<lparr>backend := s'\<rparr>)
        in case e of
             Some err \<Rightarrow> ((reply1, Some (json2_Message (Error env err))), w1)
           | None \<Rightarrow> ((reply1, None), w1))"

subsection \<open>Credentials\<close>

text \<open>
  Modelled from the spec: \<open>serverConfig\<close> and its methods are defined outside the source
  file. The configuration store holds exactly one active credential pair;
  \<open>SetCredential\<close> replaces it, \<open>GetCredential\<close> reads it, and \<open>Save\<close> persists the
  configuration to stable storage and may fail.
\<close>

definition serverConfig_SetCredential :: "credential \<Rightarrow> 's world \<Rightarrow> 's world" where
  "serverConfig_SetCredential cred w = log_call (Call_SetCredential cred) (w\<lparr>serverConfig := cred\<rparr>)"

definition serverConfig_GetCredential :: "'s world \<Rightarrow> credential \<times> 's world" where
  "serverConfig_GetCredential w = (serverConfig w, log_call Call_GetCredential w)"

definition serverConfig_Save :: "'s env \<Rightarrow> 's world \<Rightarrow> go_error option \<times> 's world" where
  "serverConfig_Save env w =
     (let (e, s') = config_Save env (backend w) (serverConfig w)
      in (e, log_call Call_Save (w\<lparr>backend := s'\<rparr>)))"

text \<open>\<open>Login\<close> - user login handler.\<close>

definition Login ::
  "'s env \<Rightarrow> Request \<Rightarrow> LoginArgs \<Rightarrow> LoginRep \<Rightarrow> 's world
     \<Rightarrow> (LoginRep \<times> json2_Error option) \<times> 's world" where
  "Login env r args reply w =
     (let jwt = initJWT w;
          w1 = log_call (Call_Authenticate (Username args) (Password args)) w
      in if jwt_Authenticate env jwt (Username args) (Password args) then
           (let w2 = log_call (Call_GenerateToken (Username args)) w1
            in case jwt_GenerateToken env (backend w2) jwt (Username args) of
                 Inl err \<Rightarrow>
                   ((reply, Some \<lparr>Message = Error env err, Data = Some (probe_String env err)\<rparr>), w2)
               | Inr token \<Rightarrow>
                   ((reply\<lparr>lg_Token := token, lg_UIVersion := UIVersion env\<rparr>, None), w2))
         else ((reply, Some (json2_Message ''Invalid credentials'')), w1))"

definition GenerateAuth ::
  "'s env \<Rightarrow> Request \<Rightarrow> GenericArgs \<Rightarrow> GenerateAuthReply \<Rightarrow> 's world
     \<Rightarrow> (GenerateAuthReply \<times> json2_Error option) \<times> 's world" where
  "GenerateAuth env r args reply w =
     (if \<not> isJWTReqAuthenticated env r w then ((reply, Some Unauthorized), w)
      else
        let (cred, s') = mustGenAccessKeys env (backend w);
            w1 = log_call Call_mustGenAccessKeys (w\<lparr>backend := s'\<rparr>)
        in ((reply\<lparr>ga_AccessKey := AccessKeyID cred, ga_SecretKey := SecretAccessKey cred,
                    ga_UIVersion := UIVersion env\<rparr>, None), w1))"

text \<open>\<open>SetAuth\<close> - Set accessKey and secretKey credentials.\<close>

definition SetAuth ::
  "'s env \<Rightarrow> Request \<Rightarrow> SetAuthArgs \<Rightarrow> SetAuthReply \<Rightarrow> 's world
     \<Rightarrow> (SetAuthReply \<times> json2_Error option) \<times> 's world" where
  "SetAuth env r args reply w =
     (if \<not> isJWTReqAuthenticated env r w then ((reply, Some Unauthorized), w)
      else if sa_AccessKey args = [] then
        ((reply, Some (json2_Message ''Empty access key not allowed'')), w)
      else if sa_SecretKey args = [] then
        ((reply, Some (json2_Message ''Empty secret key not allowed'')), w)
      else
        let cred = \<lparr>AccessKeyID = sa_AccessKey args, SecretAccessKey = sa_SecretKey args\<rparr>;
            w1 = serverConfig_SetCredential cred w;
            (e, w2) = serverConfig_Save env w1
        in case e of
             Some err \<Rightarrow> ((reply, Some (json2_Message (Error env err))), w2)
           | None \<Rightarrow>
               (let jwt = initJWT w2;
                    w3 = log_call (Call_Authenticate (sa_AccessKey args) (sa_SecretKey args)) w2
                in if \<not> jwt_Authenticate env jwt (sa_AccessKey args) (sa_SecretKey args) then
                     ((reply, Some (json2_Message ''Invalid credentials'')), w3)
                   else
                     (let w4 = log_call (Call_GenerateToken (sa_AccessKey args)) w3
                      in case jwt_GenerateToken env (backend w4) jwt (sa_AccessKey args) of
                           Inl err \<Rightarrow> ((reply, Some (json2_Message (Error env err))), w4)
                         | Inr token \<Rightarrow>
                             ((reply\<lparr>sa_Token := token, sa_UIVersion := UIVersion env\<rparr>, None),
                              w4))))"

text \<open>\<open>GetAuth\<close> - return accessKey and secretKey credentials.\<close>

definition GetAuth ::
  "'s env \<Rightarrow> Request \<Rightarrow> GenericArgs \<Rightarrow> GetAuthReply \<Rightarrow> 's world
     \<Rightarrow> (GetAuthReply \<times> json2_Error option) \<times> 's world" where
  "GetAuth env r args reply w =
     (if \<not> isJWTReqAuthenticated env r w then ((reply, Some Unauthorized), w)
      else
        let (creds, w1) = serverConfig_GetCredential w
        in ((reply\<lparr>gt_AccessKey := AccessKeyID creds, gt_SecretKey := SecretAccessKey creds,
                    gt_UIVersion := UIVersion env\<rparr>, None), w1))"

section \<open>The streaming handlers and the error translator\<close>

definition http_StatusForbidden :: int where
  "http_StatusForbidden = 403"

definition writeAPIError :: "ResponseWriter \<Rightarrow> APIError \<Rightarrow> ResponseWriter" where
  "writeAPIError w apiErr = w @ [WriteHeader (HTTPStatusCode apiErr), Write (Description apiErr)]"

text \<open>
  \<open>writeWebErrorResponse\<close> - set HTTP status code and write error description to the body.
  The comparison with \<open>errInvalidToken\<close> comes first; the type switch follows, and its
  \<open>default\<close> takes every error that is none of the eight \<open>fs\<close> types.
\<close>

definition writeWebErrorResponse :: "'s env \<Rightarrow> ResponseWriter \<Rightarrow> go_error \<Rightarrow> ResponseWriter" where
  "writeWebErrorResponse env w err =
     (if err = ErrInvalidToken then
        w @ [WriteHeader http_StatusForbidden, Write (Error env err)]
      else
        case err of
          RootPathFull _ \<Rightarrow> writeAPIError w (getAPIError env ErrRootPathFull)
        | BucketNotFound _ \<Rightarrow> writeAPIError w (getAPIError env ErrNoSuchBucket)
        | BucketNameInvalid _ \<Rightarrow> writeAPIError w (getAPIError env ErrInvalidBucketName)
        | BadDigest _ \<Rightarrow> writeAPIError w (getAPIError env ErrBadDigest)
        | IncompleteBody _ \<Rightarrow> writeAPIError w (getAPIError env ErrIncompleteBody)
        | ObjectExistsAsPrefix _ \<Rightarrow> writeAPIError w (getAPIError env ErrObjectExistsAsPrefix)
        | ObjectNotFound _ \<Rightarrow> writeAPIError w (getAPIError env ErrNoSuchKey)
        | ObjectNameInvalid _ \<Rightarrow> writeAPIError w (getAPIError env ErrNoSuchKey)
        | _ \<Rightarrow> writeAPIError w (getAPIError env ErrInternalError))"

text \<open>\<open>Upload\<close> - file upload handler.\<close>

definition Upload ::
  "'s env \<Rightarrow> ResponseWriter \<Rightarrow> Request \<Rightarrow> 's world \<Rightarrow> ResponseWriter \<times> 's world" where
  "Upload env w r wd =
     (if \<not> isJWTReqAuthenticated env r wd then (writeWebErrorResponse env w ErrInvalidToken, wd)
      else
        let bucket = Get (Vars r) ''bucket'';
            object = Get (Vars r) ''object'';
            (e, s') = fs_CreateObject env (backend wd) bucket object (- 1) (Body r);
            wd1 = log_call (Call_CreateObject bucket object (- 1) (Body r)) (wd\<lparr>backend := s'\<rparr>)
        in case e of
             Some err \<Rightarrow> (writeWebErrorResponse env w err, wd1)
           | None \<Rightarrow> (w, wd1))"

text \<open>
  \<open>Download\<close> - file download handler. The token comes from the query string and is
  parsed with the same key function; the backend writes the object to the response
  writer, and a failure is translated after whatever it has written.
\<close>

definition Download ::
  "'s env \<Rightarrow> ResponseWriter \<Rightarrow> Request \<Rightarrow> 's world \<Rightarrow> ResponseWriter \<times> 's world" where
  "Download env w r wd =
     (let bucket = Get (Vars r) ''bucket'';
          object = Get (Vars r) ''object'';
          token = Get (URL_Query r) ''token'';
          jwt = initJWT wd;
          parsed = jwtgo_Parse env (backend wd) token (keyFunc jwt)
      in if (case parsed of Inl e \<Rightarrow> True | Inr jwttoken \<Rightarrow> \<not> Valid jwttoken) then
           (writeWebErrorResponse env w ErrInvalidToken, wd)
         else
           let w1 = w @ [HeaderSet ''Content-Disposition''
                          (''attachment; filename='' @ [CHR 0x22] @ filepath_Base env object
                             @ [CHR 0x22])];
               ((written, e), s') = fs_GetObject env (backend wd) bucket object 0 0;
               w2 = w1 @ written;
               wd1 = log_call (Call_GetObject bucket object 0 0) (wd\<lparr>backend := s'\<rparr>)
           in case e of
                Some err \<Rightarrow> (writeWebErrorResponse env w2 err, wd1)
              | None \<Rightarrow> (w2, wd1))"

subsection \<open>The API error table\<close>

text \<open>
  Modelled from the spec: \<open>getAPIError\<close> and the table it reads are defined outside the
  source file. The specification gives the status class of each client-facing error:
  resource exhausted for a full root path, not found for a missing bucket or key, bad
  request for an invalid bucket name, a digest mismatch and an incomplete body, conflict
  for an object that exists as a prefix, and internal error for the rest. The classes
  are the status codes of \<open>net/http\<close>; the descriptions are a parameter.
\<close>

definition http_StatusBadRequest :: int where
  "http_StatusBadRequest = 400"

definition http_StatusNotFound :: int where
  "http_StatusNotFound = 404"

definition http_StatusConflict :: int where
  "http_StatusConflict = 409"

definition http_StatusInternalServerError :: int where
  "http_StatusInternalServerError = 500"

definition http_StatusInsufficientStorage :: int where
  "http_StatusInsufficientStorage = 507"

fun spec_status :: "APIErrorCode \<Rightarrow> int" where
  "spec_status ErrRootPathFull = http_StatusInsufficientStorage"
| "spec_status ErrNoSuchBucket = http_StatusNotFound"
| "spec_status ErrInvalidBucketName = http_StatusBadRequest"
| "spec_status ErrBadDigest = http_StatusBadRequest"
| "spec_status ErrIncompleteBody = http_StatusBadRequest"
| "spec_status ErrObjectExistsAsPrefix = http_StatusConflict"
| "spec_status ErrNoSuchKey = http_StatusNotFound"
| "spec_status ErrInternalError = http_StatusInternalServerError"

definition spec_getAPIError :: "(APIErrorCode \<Rightarrow> string) \<Rightarrow> APIErrorCode \<Rightarrow> APIError" where
  "spec_getAPIError descr code = \<lparr>HTTPStatusCode = spec_status code, Description = descr code\<rparr>"

section \<open>Pagination as the backend sees it\<close>

text \<open>
  The two struct literals of the inner loops: the entry built for a backend object sets
  \<open>Key\<close>, \<open>LastModified\<close> and \<open>Size\<close> and leaves \<open>ContentType\<close> at its zero value; the
  entry built for a common prefix sets \<open>Key\<close> only.
\<close>

definition objectEntry :: "fs_ObjectInfo \<Rightarrow> ObjectInfo" where
  "objectEntry obj = \<lparr>Key = oi_Name obj, LastModified = oi_ModifiedTime obj, Size = oi_Size obj,
                       ContentType = []\<rparr>"

definition directoryEntry :: "string \<Rightarrow> ObjectInfo" where
  "directoryEntry prefix = \<lparr>Key = prefix, LastModified = 0, Size = 0, ContentType = []\<rparr>"

text \<open>
  The entries one page contributes to the reply: one entry for each object, in the order
  of the page's object list, then one entry for each common prefix, in the order of the
  page's prefix list.
\<close>

definition pageEntries :: "ListObjectsResult \<Rightarrow> ObjectInfo list" where
  "pageEntries lo = map objectEntry (Objects lo) @ map directoryEntry (Prefixes lo)"

text \<open>
  One listing request with the arguments the handler always passes (delimiter \<open>/\<close>, at
  most 1000 keys), from a marker and a backend state.
\<close>

definition listPage :: "'s env \<Rightarrow> ListObjectsArgs \<Rightarrow> string \<times> 's \<Rightarrow> (go_error + ListObjectsResult) \<times> 's" where
  "listPage env args ms =
     fs_ListObjects env (snd ms) (lo_BucketName args) (lo_Prefix args) (fst ms) ''/'' 1000"

text \<open>
  The pagination of a backend, independent of any client: request \<open>0\<close> carries the
  starting marker; request \<open>n + 1\<close> carries the \<open>NextMarker\<close> of page \<open>n\<close> and meets the
  backend state that request \<open>n\<close> left. It is defined as long as the backend answers with
  pages, truncated or not; after an error there is no further request. \<open>requestAt\<close> is
  the marker and backend state of request \<open>n\<close>, \<open>pageAt\<close> the page it is answered with,
  \<open>markerAt\<close> its marker.
\<close>

fun requestAt :: "'s env \<Rightarrow> ListObjectsArgs \<Rightarrow> nat \<Rightarrow> string \<times> 's \<Rightarrow> (string \<times> 's) option" where
  "requestAt env args 0 ms = Some ms"
| "requestAt env args (Suc n) ms =
     (case listPage env args ms of
        (Inl e, s') \<Rightarrow> None
      | (Inr lo, s') \<Rightarrow> requestAt env args n (NextMarker lo, s'))"

definition pageAt :: "'s env \<Rightarrow> ListObjectsArgs \<Rightarrow> string \<times> 's \<Rightarrow> nat \<Rightarrow> ListObjectsResult option" where
  "pageAt env args ms n =
     (case requestAt env args n ms of
        None \<Rightarrow> None
      | Some ms' \<Rightarrow> (case fst (listPage env args ms') of Inl e \<Rightarrow> None | Inr lo \<Rightarrow> Some lo))"

definition markerAt :: "'s env \<Rightarrow> ListObjectsArgs \<Rightarrow> string \<times> 's \<Rightarrow> nat \<Rightarrow> string" where
  "markerAt env args ms n = (case requestAt env args n ms of None \<Rightarrow> [] | Some ms' \<Rightarrow> fst ms')"

text \<open>
  Request \<open>n\<close> is answered with a page that the backend reports as not truncated;
  \<open>firstLastPage\<close>: and no earlier request is.
\<close>

definition lastPageAt :: "'s env \<Rightarrow> ListObjectsArgs \<Rightarrow> string \<times> 's \<Rightarrow> nat \<Rightarrow> bool" where
  "lastPageAt env args ms n =
     (case pageAt env args ms n of None \<Rightarrow> False | Some lo \<Rightarrow> \<not> IsTruncated lo)"

definition firstLastPage :: "'s env \<Rightarrow> ListObjectsArgs \<Rightarrow> string \<times> 's \<Rightarrow> nat \<Rightarrow> bool" where
  "firstLastPage env args ms j =
     (lastPageAt env args ms j \<and> (\<forall>i\<in>{0..<j}. \<not> lastPageAt env args ms i))"

text \<open>The pages of requests \<open>0, \<dots>, j\<close> in order, and these requests as logged calls.\<close>

definition pagesUpTo :: "'s env \<Rightarrow> ListObjectsArgs \<Rightarrow> string \<times> 's \<Rightarrow> nat \<Rightarrow> ListObjectsResult list" where
  "pagesUpTo env args ms j = List.map_filter (pageAt env args ms) [0..<Suc j]"

definition requestsUpTo :: "'s env \<Rightarrow> ListObjectsArgs \<Rightarrow> string \<times> 's \<Rightarrow> nat \<Rightarrow> call list" where
  "requestsUpTo env args ms j =
     map (\<lambda>i. Call_ListObjects (lo_BucketName args) (lo_Prefix args) (markerAt env args ms i) ''/'' 1000)
       [0..<Suc j]"

section \<open>A concrete environment\<close>

text \<open>
  A small backend for evaluating the handlers: tokens are \<open>hs:\<close> or \<open>rs:\<close> followed by the
  key that signed them, the listing has two pages, and the bucket list contains the
  reserved bucket.
\<close>

definition demo_token_of_request :: "Request \<Rightarrow> string option" where
  "demo_token_of_request r =
     (let ah = Get (Header r) ''Authorization''
      in if take 7 ah = ''Bearer '' then Some (drop 7 ah) else None)"

definition demo_decode :: "string \<Rightarrow> Token option" where
  "demo_decode t =
     (if take 3 t = ''hs:'' then
        Some \<lparr>Raw = t, Method = SigningMethodHMAC ''HS256'', Header_alg = ''HS256'', Valid = False\<rparr>
      else if take 3 t = ''rs:'' then
        Some \<lparr>Raw = t, Method = SigningMethodRSA ''RS256'', Header_alg = ''RS256'', Valid = False\<rparr>
      else None)"

definition demo_page :: "string \<Rightarrow> go_error + ListObjectsResult" where
  "demo_page marker =
     (if marker = [] then
        Inr \<lparr>IsTruncated = True, NextMarker = ''b.txt'',
             Objects = [\<lparr>oi_Name = ''a.txt'', oi_ModifiedTime = 5, oi_Size = 10,
                         oi_ContentType = ''text/plain''\<rparr>],
             Prefixes = [''dir/'']\<rparr>
      else if marker = ''b.txt'' then
        Inr \<lparr>IsTruncated = False, NextMarker = [],
             Objects = [\<lparr>oi_Name = ''c.txt'', oi_ModifiedTime = 7, oi_Size = 20,
                         oi_ContentType = ''text/plain''\<rparr>],
             Prefixes = []\<rparr>
      else Inl (OtherError ''bad marker''))"

definition demo_env :: "nat env" where
  "demo_env =
     \<lparr>fs_GetRootPath = (\<lambda>s. ''/export''),
      disk_GetInfo = (\<lambda>s p. Inr \<lparr>Total = 100, Free = 40, Files = 3, FFree = 9, FSType = ''ext4''\<rparr>),
      fs_MakeBucket = (\<lambda>s b. (if b = [] then Some (BucketNameInvalid b) else None, Suc s)),
      fs_ListBuckets = (\<lambda>s. (Inr [\<lparr>bm_Name = ''photos'', bm_Created = 3\<rparr>,
                                   \<lparr>bm_Name = ''minio'', bm_Created = 1\<rparr>,
                                   \<lparr>bm_Name = ''docs'', bm_Created = 4\<rparr>], Suc s)),
      fs_ListObjects = (\<lambda>s b p marker d n. (demo_page marker, Suc s)),
      fs_DeleteObject = (\<lambda>s b ob. (Some (ObjectNotFound ob), Suc s)),
      fs_CreateObject = (\<lambda>s b ob n body. (None, Suc s)),
      fs_GetObject = (\<lambda>s b ob off len. (([Write ''data''], None), Suc s)),
      config_Save = (\<lambda>s c. (None, Suc s)),
      jwt_Authenticate = (\<lambda>j u p. u = AccessKeyID (jwt_credential j)
                                 \<and> p = SecretAccessKey (jwt_credential j)),
      jwt_GenerateToken = (\<lambda>s j u. Inr (''hs:'' @ SecretAccessKey (jwt_credential j))),
      mustGenAccessKeys = (\<lambda>s. (\<lparr>AccessKeyID = ''GENERATED'', SecretAccessKey = ''generated''\<rparr>, Suc s)),
      jwt_token_of_request = demo_token_of_request,
      jwt_decode = demo_decode,
      jwt_verify = (\<lambda>s t key. drop 3 (Raw t) = key),
      getAPIError = spec_getAPIError (\<lambda>c. ''description''),
      Error = (\<lambda>e. if e = ErrInvalidToken then ''Invalid token'' else ''backend error''),
      probe_String = (\<lambda>e. ''trace''),
      reservedBucket = ''/minio'',
      filepath_Base = path_Base,
      UIVersion = ''ui-1'',
      minioVersion = ''v-1'',
      os_Hostname = (\<lambda>s. Inr ''host''),
      runtime_ReadMemStats = (\<lambda>s. \<lparr>Alloc = 1, TotalAlloc = 2, HeapAlloc = 3, HeapSys = 4\<rparr>),
      humanize_Bytes = (\<lambda>n. ''1B''),
      runtime_GOOS = ''linux'',
      runtime_GOARCH = ''amd64'',
      runtime_Version = ''go1.6'',
      runtime_NumCPU = 4,
      strconv_Itoa = (\<lambda>n. ''4'')\<rparr>"

definition demo_world :: "nat world" where
  "demo_world = \<lparr>calls = [], serverConfig = \<lparr>AccessKeyID = ''admin'', SecretAccessKey = ''secret''\<rparr>,
                  backend = 0\<rparr>"

definition request_with :: "string \<Rightarrow> Request" where
  "request_with ah = \<lparr>Header = [(''Authorization'', ah)], Form = [], URL_Query = [],
                       Vars = [(''bucket'', ''photos''), (''object'', ''a/b.txt'')], Body = ''body''\<rparr>"

text \<open>The listing request, the reply it produces and the world it leaves.\<close>

definition demo_args :: ListObjectsArgs where
  "demo_args = \<lparr>lo_BucketName = ''photos'', lo_Prefix = []\<rparr>"

definition demo_listing :: "ObjectInfo list" where
  "demo_listing =
     [\<lparr>Key = ''a.txt'', LastModified = 5, Size = 10, ContentType = []\<rparr>,
      \<lparr>Key = ''dir/'', LastModified = 0, Size = 0, ContentType = []\<rparr>,
      \<lparr>Key = ''c.txt'', LastModified = 7, Size = 20, ContentType = []\<rparr>]"

definition demo_world_listed :: "nat world" where
  "demo_world_listed =
     \<lparr>calls = [Call_ListObjects ''photos'' [] [] ''/'' 1000,
               Call_ListObjects ''photos'' [] ''b.txt'' ''/'' 1000],
      serverConfig = \<lparr>AccessKeyID = ''admin'', SecretAccessKey = ''secret''\<rparr>,
      backend = 2\<rparr>"

text \<open>The world after the credential has been replaced by \<open>new-admin\<close> and \<open>new-secret\<close>.\<close>

definition demo_world_rotated :: "nat world" where
  "demo_world_rotated =
     \<lparr>calls = [Call_SetCredential \<lparr>AccessKeyID = ''new-admin'', SecretAccessKey = ''new-secret''\<rparr>,
               Call_Save, Call_Authenticate ''new-admin'' ''new-secret'',
               Call_GenerateToken ''new-admin''],
      serverConfig = \<lparr>AccessKeyID = ''new-admin'', SecretAccessKey = ''new-secret''\<rparr>,
      backend = 1\<rparr>"

declare listObjectsLoop.simps [code]

section \<open>The loops as list operations\<close>

lemma appendBuckets_eq:
  "appendBuckets rb bs acc =
     acc @ map (\<lambda>b. \<lparr>Name = bm_Name b, CreationDate = bm_Created b\<rparr>) (filter (\<lambda>b. bm_Name b \<noteq> rb) bs)"
  by (induction bs arbitrary: acc) simp_all

lemma appendObjects_eq: "appendObjects objs acc = acc @ map objectEntry objs"
  by (induction objs arbitrary: acc) (simp_all add: objectEntry_def)

lemma appendPrefixes_eq: "appendPrefixes ps acc = acc @ map directoryEntry ps"
  by (induction ps arbitrary: acc) (simp_all add: directoryEntry_def)

lemma appendPage_eq:
  "appendPrefixes (Prefixes lo) (appendObjects (Objects lo) acc) = acc @ pageEntries lo"
  by (simp add: appendObjects_eq appendPrefixes_eq pageEntries_def)

lemma upt_Suc_shift: "[0..<Suc (Suc j)] = 0 # map Suc [0..<Suc j]"
  by (simp add: upt_conv_Cons map_Suc_upt del: upt_Suc)

lemma requestAt_Suc_page:
  "listPage env args ms = (Inr lo, s') \<Longrightarrow>
     requestAt env args (Suc n) ms = requestAt env args n (NextMarker lo, s')"
  by simp

lemma pageAt_0: "pageAt env args ms 0 = (case fst (listPage env args ms) of Inl e \<Rightarrow> None | Inr lo \<Rightarrow> Some lo)"
  by (simp add: pageAt_def)

lemma pageAt_Suc_page:
  "listPage env args ms = (Inr lo, s') \<Longrightarrow>
     pageAt env args ms (Suc n) = pageAt env args (NextMarker lo, s') n"
  by (simp add: pageAt_def)

lemma pageAt_Suc_error:
  "listPage env args ms = (Inl e, s') \<Longrightarrow> pageAt env args ms n = None"
  by (cases n) (simp_all add: pageAt_def)

lemma markerAt_0: "markerAt env args ms 0 = fst ms"
  by (simp add: markerAt_def)

lemma markerAt_Suc_page:
  "listPage env args ms = (Inr lo, s') \<Longrightarrow>
     markerAt env args ms (Suc n) = markerAt env args (NextMarker lo, s') n"
  by (simp add: markerAt_def)

lemma lastPageAt_Suc_page:
  "listPage env args ms = (Inr lo, s') \<Longrightarrow>
     lastPageAt env args ms (Suc n) = lastPageAt env args (NextMarker lo, s') n"
  by (simp add: lastPageAt_def pageAt_Suc_page)

lemma firstLastPage_iff:
  "firstLastPage env args ms j \<longleftrightarrow>
     lastPageAt env args ms j \<and> (\<forall>i<j. \<not> lastPageAt env args ms i)"
  by (auto simp: firstLastPage_def)

lemma firstLastPage_0:
  "firstLastPage env args ms 0 \<longleftrightarrow> (\<exists>lo. fst (listPage env args ms) = Inr lo \<and> \<not> IsTruncated lo)"
  by (auto simp: firstLastPage_iff lastPageAt_def pageAt_0 split: sum.splits)

lemma firstLastPage_Suc:
  "firstLastPage env args ms (Suc j) \<longleftrightarrow>
     (\<exists>lo s'. listPage env args ms = (Inr lo, s') \<and> IsTruncated lo
        \<and> firstLastPage env args (NextMarker lo, s') j)"
proof (cases "listPage env args ms")
  case (Pair res s')
  show ?thesis
  proof (cases res)
    case (Inl e)
    with Pair show ?thesis
      by (simp add: firstLastPage_iff lastPageAt_def pageAt_Suc_error)
  next
    case (Inr lo)
    with Pair have page: "listPage env args ms = (Inr lo, s')" by simp
    have all: "(\<forall>i<Suc j. \<not> lastPageAt env args ms i) \<longleftrightarrow>
               (\<not> lastPageAt env args ms 0 \<and> (\<forall>i<j. \<not> lastPageAt env args ms (Suc i)))"
      by (metis less_Suc_eq_0_disj Suc_less_eq)
    have zero: "lastPageAt env args ms 0 \<longleftrightarrow> \<not> IsTruncated lo"
      by (simp add: lastPageAt_def pageAt_0 page)
    show ?thesis
      unfolding firstLastPage_iff all zero
      by (auto simp: page lastPageAt_Suc_page [OF page])
  qed
qed

lemma map_filter_map_Suc: "List.map_filter f (map Suc xs) = List.map_filter (\<lambda>i. f (Suc i)) xs"
  by (simp add: List.map_filter_def filter_map comp_def)

lemma pagesUpTo_0:
  "fst (listPage env args ms) = Inr lo \<Longrightarrow> pagesUpTo env args ms 0 = [lo]"
  by (simp add: pagesUpTo_def List.map_filter_def pageAt_0)

lemma pagesUpTo_Suc:
  assumes "listPage env args ms = (Inr lo, s')"
  shows "pagesUpTo env args ms (Suc j) = lo # pagesUpTo env args (NextMarker lo, s') j"
proof -
  have "pagesUpTo env args ms (Suc j)
          = List.map_filter (pageAt env args ms) (0 # map Suc [0..<Suc j])"
    unfolding pagesUpTo_def upt_Suc_shift ..
  also have "\<dots> = lo # List.map_filter (\<lambda>i. pageAt env args ms (Suc i)) [0..<Suc j]"
    by (simp add: map_filter_simps pageAt_0 assms map_filter_map_Suc del: upt_Suc)
  also have "\<dots> = lo # pagesUpTo env args (NextMarker lo, s') j"
    by (simp only: pageAt_Suc_page [OF assms] pagesUpTo_def)
  finally show ?thesis .
qed

lemma requestsUpTo_0:
  "requestsUpTo env args ms 0 =
     [Call_ListObjects (lo_BucketName args) (lo_Prefix args) (fst ms) ''/'' 1000]"
  by (simp add: requestsUpTo_def markerAt_0)

lemma requestsUpTo_Suc:
  assumes "listPage env args ms = (Inr lo, s')"
  shows "requestsUpTo env args ms (Suc j) =
           Call_ListObjects (lo_BucketName args) (lo_Prefix args) (fst ms) ''/'' 1000
             # requestsUpTo env args (NextMarker lo, s') j"
  unfolding requestsUpTo_def upt_Suc_shift
  by (simp add: markerAt_0 markerAt_Suc_page [OF assms] comp_def del: upt_Suc)

lemma listObjectsLoop_last:
  assumes "fs_ListObjects env (backend w) (lo_BucketName args) (lo_Prefix args) marker ''/'' 1000
             = (Inr lo, s')"
      and "\<not> IsTruncated lo"
  shows "listObjectsLoop env args marker reply w =
           Some ((reply\<lparr>lor_Objects := lor_Objects reply @ pageEntries lo\<rparr>, None),
                 log_call (Call_ListObjects (lo_BucketName args) (lo_Prefix args) marker ''/'' 1000)
                   (w\<lparr>backend := s'\<rparr>))"
  by (subst listObjectsLoop.simps) (simp add: assms appendPage_eq)

lemma listObjectsLoop_more:
  assumes "fs_ListObjects env (backend w) (lo_BucketName args) (lo_Prefix args) marker ''/'' 1000
             = (Inr lo, s')"
      and "IsTruncated lo"
  shows "listObjectsLoop env args marker reply w =
           listObjectsLoop env args (NextMarker lo)
             (reply\<lparr>lor_Objects := lor_Objects reply @ pageEntries lo\<rparr>)
             (log_call (Call_ListObjects (lo_BucketName args) (lo_Prefix args) marker ''/'' 1000)
                (w\<lparr>backend := s'\<rparr>))"
  by (subst listObjectsLoop.simps) (simp add: assms appendPage_eq)

lemma listObjectsLoop_error:
  assumes "fs_ListObjects env (backend w) (lo_BucketName args) (lo_Prefix args) marker ''/'' 1000
             = (Inl err, s')"
  shows "listObjectsLoop env args marker reply w =
           Some ((reply, Some (json2_Message (Error env err))),
                 log_call (Call_ListObjects (lo_BucketName args) (lo_Prefix args) marker ''/'' 1000)
                   (w\<lparr>backend := s'\<rparr>))"
  by (subst listObjectsLoop.simps) (simp add: assms)

lemma listObjectsLoop_run:
  "firstLastPage env args (marker, backend w) j \<Longrightarrow>
     \<exists>s'. listObjectsLoop env args marker reply w =
       Some ((reply\<lparr>lor_Objects := lor_Objects reply
                        @ concat (map pageEntries (pagesUpTo env args (marker, backend w) j))\<rparr>, None),
             w\<lparr>backend := s', calls := calls w @ requestsUpTo env args (marker, backend w) j\<rparr>)"
proof (induction j arbitrary: marker reply w)
  case 0
  then obtain lo where lo: "fst (listPage env args (marker, backend w)) = Inr lo" "\<not> IsTruncated lo"
    by (auto simp: firstLastPage_0)
  obtain s' where page: "fs_ListObjects env (backend w) (lo_BucketName args) (lo_Prefix args) marker ''/'' 1000
             = (Inr lo, s')"
    using lo(1) by (cases "listPage env args (marker, backend w)") (simp add: listPage_def)
  show ?case
    by (rule exI [of _ s'])
       (simp add: listObjectsLoop_last [OF page lo(2)] pagesUpTo_0 [OF lo(1)] requestsUpTo_0
          log_call_def)
next
  case (Suc j)
  then obtain lo s' where page: "listPage env args (marker, backend w) = (Inr lo, s')"
    and trunc: "IsTruncated lo"
    and rest: "firstLastPage env args (NextMarker lo, s') j"
    by (auto simp: firstLastPage_Suc)
  have page': "fs_ListObjects env (backend w) (lo_BucketName args) (lo_Prefix args) marker ''/'' 1000
             = (Inr lo, s')"
    using page by (simp add: listPage_def)
  let ?c = "Call_ListObjects (lo_BucketName args) (lo_Prefix args) marker ''/'' 1000"
  let ?w1 = "log_call ?c (w\<lparr>backend := s'\<rparr>)"
  let ?reply1 = "reply\<lparr>lor_Objects := lor_Objects reply @ pageEntries lo\<rparr>"
  have "firstLastPage env args (NextMarker lo, backend ?w1) j"
    using rest by (simp add: log_call_def)
  from Suc.IH [OF this, of ?reply1] obtain s'' where
    "listObjectsLoop env args (NextMarker lo) ?reply1 ?w1 =
       Some ((?reply1\<lparr>lor_Objects := lor_Objects ?reply1
                        @ concat (map pageEntries (pagesUpTo env args (NextMarker lo, backend ?w1) j))\<rparr>, None),
             ?w1\<lparr>backend := s'', calls := calls ?w1 @ requestsUpTo env args (NextMarker lo, backend ?w1) j\<rparr>)"
    by blast
  then show ?case
    by (intro exI [of _ s''])
       (simp add: listObjectsLoop_more [OF page' trunc] pagesUpTo_Suc [OF page]
          requestsUpTo_Suc [OF page] log_call_def)
qed

lemma listObjectsLoop_returns:
  "listObjectsLoop env args marker reply w = Some y \<Longrightarrow>
     snd (fst y) = None \<longrightarrow> (\<exists>j. firstLastPage env args (marker, backend w) j)"
proof (induction env args marker reply w y
         rule: listObjectsLoop.raw_induct [rotated, consumes 1, case_names step])
  case (step loop env args marker reply w y)
  obtain res s' where page: "listPage env args (marker, backend w) = (res, s')"
    by (cases "listPage env args (marker, backend w)")
  hence page': "fs_ListObjects env (backend w) (lo_BucketName args) (lo_Prefix args) marker ''/'' 1000
             = (res, s')"
    by (simp add: listPage_def)
  show ?case
  proof (cases res)
    case (Inl err)
    with step.hyps page' show ?thesis by auto
  next
    case (Inr lo)
    show ?thesis
    proof (cases "IsTruncated lo")
      case False
      with Inr page have "firstLastPage env args (marker, backend w) 0"
        by (simp add: firstLastPage_0)
      then show ?thesis by blast
    next
      case True
      let ?w1 = "log_call (Call_ListObjects (lo_BucketName args) (lo_Prefix args) marker ''/'' 1000)
                      (w\<lparr>backend := s'\<rparr>)"
      from step.hyps page' Inr True obtain reply1 where
        "loop env args (NextMarker lo) reply1 ?w1 = Some y"
        by (auto simp: Let_def)
      from step.IH [OF this] have
        "snd (fst y) = None \<longrightarrow> (\<exists>j. firstLastPage env args (NextMarker lo, s') j)"
        by (simp add: log_call_def)
      moreover have "\<And>j. firstLastPage env args (NextMarker lo, s') j
                      \<Longrightarrow> firstLastPage env args (marker, backend w) (Suc j)"
        using page Inr True by (simp add: firstLastPage_Suc)
      ultimately show ?thesis by blast
    qed
  qed
qed

section \<open>The listing follows the pagination\<close>

lemma requestAt_Suc_last:
  "requestAt env args (Suc i) ms =
     (case requestAt env args i ms of
        None \<Rightarrow> None
      | Some ms' \<Rightarrow>
          (case listPage env args ms' of
             (Inl e, s') \<Rightarrow> None
           | (Inr lo, s') \<Rightarrow> Some (NextMarker lo, s')))"
proof (induction i arbitrary: ms)
  case 0
  show ?case by (simp split: prod.splits sum.splits)
next
  case (Suc i)
  show ?case
  proof (cases "listPage env args ms")
    case (Pair res s')
    then show ?thesis
      using Suc.IH by (cases res) simp_all
  qed
qed

lemma markerAt_Suc:
  "pageAt env args ms i = Some lo \<Longrightarrow> markerAt env args ms (Suc i) = NextMarker lo"
  unfolding markerAt_def pageAt_def requestAt_Suc_last
  by (auto split: option.splits sum.splits prod.splits)

lemma lastPageAt_least:
  assumes "lastPageAt env args ms k"
  shows "\<exists>j\<le>k. firstLastPage env args ms j"
proof -
  let ?j = "LEAST j. lastPageAt env args ms j"
  have "lastPageAt env args ms ?j"
    using assms by (rule LeastI)
  moreover have "?j \<le> k"
    using assms by (rule Least_le)
  moreover have "\<forall>i<?j. \<not> lastPageAt env args ms i"
    using not_less_Least by blast
  ultimately show ?thesis
    unfolding firstLastPage_iff by blast
qed

lemma firstLastPage_pages:
  "firstLastPage env args ms j \<Longrightarrow>
     map Some (pagesUpTo env args ms j) = map (pageAt env args ms) [0..<Suc j]"
proof (induction j arbitrary: ms)
  case 0
  then obtain lo where "fst (listPage env args ms) = Inr lo"
    by (auto simp: firstLastPage_0)
  then show ?case
    by (simp add: pagesUpTo_0 pageAt_0)
next
  case (Suc j)
  then obtain lo s' where page: "listPage env args ms = (Inr lo, s')"
    and rest: "firstLastPage env args (NextMarker lo, s') j"
    by (auto simp: firstLastPage_Suc)
  have "map (pageAt env args ms) [0..<Suc (Suc j)]
          = pageAt env args ms 0 # map (\<lambda>i. pageAt env args ms (Suc i)) [0..<Suc j]"
    unfolding upt_Suc_shift by (simp add: comp_def del: upt_Suc)
  also have "\<dots> = Some lo # map (pageAt env args (NextMarker lo, s')) [0..<Suc j]"
    by (simp only: pageAt_Suc_page [OF page]) (simp add: pageAt_0 page)
  also have "\<dots> = map Some (pagesUpTo env args ms (Suc j))"
    using Suc.IH [OF rest] by (simp add: pagesUpTo_Suc [OF page])
  finally show ?case by simp
qed

lemma ListObjects_run:
  assumes "isJWTReqAuthenticated env r w"
      and "firstLastPage env args ([], backend w) j"
  shows "\<exists>s'. ListObjects env r args reply w =
       Some ((reply\<lparr>lor_Objects := lor_Objects reply
                        @ concat (map pageEntries (pagesUpTo env args ([], backend w) j)),
                     lor_UIVersion := UIVersion env\<rparr>, None),
             w\<lparr>backend := s', calls := calls w @ requestsUpTo env args ([], backend w) j\<rparr>)"
proof -
  from listObjectsLoop_run [OF assms(2), of reply] obtain s' where
    "listObjectsLoop env args [] reply w =
       Some ((reply\<lparr>lor_Objects := lor_Objects reply
                        @ concat (map pageEntries (pagesUpTo env args ([], backend w) j))\<rparr>, None),
             w\<lparr>backend := s', calls := calls w @ requestsUpTo env args ([], backend w) j\<rparr>)"
    by blast
  then show ?thesis
    using assms(1) by (intro exI [of _ s']) (simp add: ListObjects_def)
qed

lemma ListObjects_returns:
  assumes "isJWTReqAuthenticated env r w"
      and "ListObjects env r args reply w = Some ((reply', None), w')"
  shows "\<exists>j. firstLastPage env args ([], backend w) j"
proof -
  from assms obtain y where y: "listObjectsLoop env args [] reply w = Some y" "snd (fst y) = None"
    by (auto simp: ListObjects_def split: option.splits prod.splits)
  from listObjectsLoop_returns [OF y(1)] y(2) show ?thesis by blast
qed

section \<open>Evaluating the concrete environment\<close>

lemmas demo_defs = demo_env_def demo_world_def request_with_def demo_token_of_request_def
  demo_decode_def demo_page_def

lemmas verifier_defs = isJWTReqAuthenticated_def jwtgo_ParseFromRequest_def jwtgo_Parse_def
  keyFunc_def initJWT_def

lemma demo_authenticated:
  "isJWTReqAuthenticated demo_env (request_with ''Bearer hs:secret'') demo_world"
  by (simp add: verifier_defs demo_defs)

lemma demo_not_authenticated:
  "\<not> isJWTReqAuthenticated demo_env (request_with ''Bearer hs:wrong'') demo_world"
  by (simp add: verifier_defs demo_defs)

lemma demo_ListObjects:
  "ListObjects demo_env (request_with ''Bearer hs:secret'') demo_args
     \<lparr>lor_Objects = [], lor_UIVersion = []\<rparr> demo_world
   = Some ((\<lparr>lor_Objects = demo_listing, lor_UIVersion = ''ui-1''\<rparr>, None), demo_world_listed)"
  by code_simp

lemma demo_firstLastPage: "firstLastPage demo_env demo_args ([], backend demo_world) (Suc 0)"
  by code_simp

lemma demo_requestsUpTo:
  "requestsUpTo demo_env demo_args ([], backend demo_world) (Suc 0) = calls demo_world_listed"
  by code_simp

section \<open>The authentication gate\<close>

text \<open>
  C1. In each of the nine RPC methods other than \<open>Login\<close>, a request whose token fails
  verification gets the error with message \<open>Unauthorized request\<close>, and the method does
  nothing else: the reply is the one passed in, and the world is the one passed in, so
  the call log, the active credential and the backend state are untouched. Since the
  outcome depends on nothing but the verification, no action of the method comes before
  the check.
\<close>

theorem unauthorized_request_rejected:
  assumes "\<not> isJWTReqAuthenticated env r w"
  shows "ServerInfo env r a1 rep1 w = ((rep1, Some \<lparr>Message = ''Unauthorized request'', Data = None\<rparr>), w)
       \<and> DiskInfo env r a2 rep2 w = ((rep2, Some \<lparr>Message = ''Unauthorized request'', Data = None\<rparr>), w)
       \<and> MakeBucket env r a3 rep3 w = ((rep3, Some \<lparr>Message = ''Unauthorized request'', Data = None\<rparr>), w)
       \<and> ListBuckets env r a4 rep4 w = ((rep4, Some \<lparr>Message = ''Unauthorized request'', Data = None\<rparr>), w)
       \<and> ListObjects env r a5 rep5 w = Some ((rep5, Some \<lparr>Message = ''Unauthorized request'', Data = None\<rparr>), w)
       \<and> RemoveObject env r a6 rep6 w = ((rep6, Some \<lparr>Message = ''Unauthorized request'', Data = None\<rparr>), w)
       \<and> GenerateAuth env r a7 rep7 w = ((rep7, Some \<lparr>Message = ''Unauthorized request'', Data = None\<rparr>), w)
       \<and> SetAuth env r a8 rep8 w = ((rep8, Some \<lparr>Message = ''Unauthorized request'', Data = None\<rparr>), w)
       \<and> GetAuth env r a9 rep9 w = ((rep9, Some \<lparr>Message = ''Unauthorized request'', Data = None\<rparr>), w)"
  using assms
  by (simp add: ServerInfo_def DiskInfo_def MakeBucket_def ListBuckets_def ListObjects_def
      RemoveObject_def GenerateAuth_def SetAuth_def GetAuth_def Unauthorized_def json2_Message_def)

text \<open>A request signed with the wrong key, at the concrete environment.\<close>

theorem unauthorized_request_rejected_witness:
  "\<not> isJWTReqAuthenticated demo_env (request_with ''Bearer hs:wrong'') demo_world
   \<and> MakeBucket demo_env (request_with ''Bearer hs:wrong'') \<lparr>mb_BucketName = ''photos''\<rparr>
        \<lparr>gr_UIVersion = []\<rparr> demo_world
       = ((\<lparr>gr_UIVersion = []\<rparr>, Some \<lparr>Message = ''Unauthorized request'', Data = None\<rparr>), demo_world)
   \<and> ListObjects demo_env (request_with ''Bearer hs:wrong'') \<lparr>lo_BucketName = ''photos'', lo_Prefix = []\<rparr>
        \<lparr>lor_Objects = [], lor_UIVersion = []\<rparr> demo_world
       = Some ((\<lparr>lor_Objects = [], lor_UIVersion = []\<rparr>,
                Some \<lparr>Message = ''Unauthorized request'', Data = None\<rparr>), demo_world)
   \<and> calls (snd (GetAuth demo_env (request_with ''Bearer hs:wrong'') ()
        \<lparr>gt_AccessKey = [], gt_SecretKey = [], gt_UIVersion = []\<rparr> demo_world)) = []"
proof -
  note h = demo_not_authenticated
  have "calls demo_world = []"
    by (simp add: demo_world_def)
  with h unauthorized_request_rejected [OF h,
      where ?a3.0 = "\<lparr>mb_BucketName = ''photos''\<rparr>" and ?rep3.0 = "\<lparr>gr_UIVersion = []\<rparr>"
        and ?a5.0 = "\<lparr>lo_BucketName = ''photos'', lo_Prefix = []\<rparr>"
        and ?rep5.0 = "\<lparr>lor_Objects = [], lor_UIVersion = []\<rparr>"
        and ?a9.0 = "()" and ?rep9.0 = "\<lparr>gt_AccessKey = [], gt_SecretKey = [], gt_UIVersion = []\<rparr>"]
  show ?thesis by simp
qed

text \<open>
  C8. A token string that does not decode to a token of the HMAC type (its declared
  algorithm resolves to another signing method, or to none the library knows) is refused
  on both verification paths, whatever the check of its claims and signature would say: the
  check of the request's embedded token, which the RPC methods and \<open>Upload\<close> use, fails,
  and \<open>Upload\<close> writes the forbidden response without touching the backend; \<open>Download\<close>,
  which parses the token of the query string, does the same.
\<close>

theorem non_HMAC_token_rejected:
  assumes "\<forall>token. jwt_decode env tokenString = Some token \<longrightarrow> \<not> is_SigningMethodHMAC (Method token)"
  shows "(jwt_token_of_request env r = Some tokenString \<longrightarrow>
            \<not> isJWTReqAuthenticated env r wd
            \<and> Upload env w r wd
                = (w @ [WriteHeader 403, Write (Error env ErrInvalidToken)], wd))
       \<and> (Get (URL_Query r) ''token'' = tokenString \<longrightarrow>
            Download env w r wd
              = (w @ [WriteHeader 403, Write (Error env ErrInvalidToken)], wd))"
proof (cases "jwt_decode env tokenString")
  case None
  then show ?thesis
    by (simp add: verifier_defs Upload_def Download_def writeWebErrorResponse_def
        http_StatusForbidden_def)
next
  case (Some token)
  with assms have "\<not> is_SigningMethodHMAC (Method token)"
    by simp
  with Some show ?thesis
    by (simp add: verifier_defs Upload_def Download_def writeWebErrorResponse_def
        http_StatusForbidden_def)
qed

text \<open>
  A token of the RSA family whose signature check would pass under the server's
  secret, presented in the header and in the query string.
\<close>

theorem non_HMAC_token_rejected_witness:
  "jwt_decode demo_env ''rs:secret''
     = Some \<lparr>Raw = ''rs:secret'', Method = SigningMethodRSA ''RS256'', Header_alg = ''RS256'',
             Valid = False\<rparr>
   \<and> \<not> is_SigningMethodHMAC (SigningMethodRSA ''RS256'')
   \<and> jwt_verify demo_env (backend demo_world)
        \<lparr>Raw = ''rs:secret'', Method = SigningMethodRSA ''RS256'', Header_alg = ''RS256'',
          Valid = False\<rparr> (SecretAccessKey (serverConfig demo_world))
   \<and> jwt_token_of_request demo_env (request_with ''Bearer rs:secret'') = Some ''rs:secret''
   \<and> \<not> isJWTReqAuthenticated demo_env (request_with ''Bearer rs:secret'') demo_world
   \<and> Upload demo_env [] (request_with ''Bearer rs:secret'') demo_world
       = ([WriteHeader 403, Write ''Invalid token''], demo_world)
   \<and> Download demo_env [] ((request_with []) \<lparr>URL_Query := [(''token'', ''rs:secret'')]\<rparr>) demo_world
       = ([WriteHeader 403, Write ''Invalid token''], demo_world)"
proof -
  let ?token = "\<lparr>Raw = ''rs:secret'', Method = SigningMethodRSA ''RS256'', Header_alg = ''RS256'',
             Valid = False\<rparr>"
  have decode: "jwt_decode demo_env ''rs:secret'' = Some ?token"
    by (simp add: demo_env_def demo_decode_def)
  have not_hmac: "\<forall>token. jwt_decode demo_env ''rs:secret'' = Some token
                     \<longrightarrow> \<not> is_SigningMethodHMAC (Method token)"
    by (auto simp: decode)
  have signed: "jwt_verify demo_env (backend demo_world) ?token (SecretAccessKey (serverConfig demo_world))"
    by (simp add: demo_env_def demo_world_def)
  have header: "jwt_token_of_request demo_env (request_with ''Bearer rs:secret'') = Some ''rs:secret''"
    by (simp add: demo_env_def demo_token_of_request_def request_with_def)
  have query: "Get (URL_Query ((request_with []) \<lparr>URL_Query := [(''token'', ''rs:secret'')]\<rparr>)) ''token''
                 = ''rs:secret''"
    by simp
  have msg: "Error demo_env ErrInvalidToken = ''Invalid token''"
    by (simp add: demo_env_def)
  from non_HMAC_token_rejected [OF not_hmac, of "request_with ''Bearer rs:secret''" demo_world "[]"]
    header msg
  have up: "\<not> isJWTReqAuthenticated demo_env (request_with ''Bearer rs:secret'') demo_world
   \<and> Upload demo_env [] (request_with ''Bearer rs:secret'') demo_world
       = ([WriteHeader 403, Write ''Invalid token''], demo_world)"
    by simp
  from non_HMAC_token_rejected [OF not_hmac,
      of "(request_with []) \<lparr>URL_Query := [(''token'', ''rs:secret'')]\<rparr>" demo_world "[]"]
    query msg
  have down: "Download demo_env [] ((request_with []) \<lparr>URL_Query := [(''token'', ''rs:secret'')]\<rparr>) demo_world
       = ([WriteHeader 403, Write ''Invalid token''], demo_world)"
    by simp
  from decode signed header up down show ?thesis by simp
qed

section \<open>Credential management\<close>

text \<open>
  C4. An authenticated \<open>SetAuth\<close> with an empty access key returns the error
  \<open>Empty access key not allowed\<close>; with a non-empty access key and an empty secret key
  it returns the different error \<open>Empty secret key not allowed\<close>. In both cases the
  world is returned as it was: the active credential is unchanged and neither
  \<open>SetCredential\<close> nor \<open>Save\<close> is called.
\<close>

theorem SetAuth_empty_keys_rejected:
  assumes "isJWTReqAuthenticated env r w"
  shows "(sa_AccessKey args = [] \<longrightarrow>
            SetAuth env r args reply w
              = ((reply, Some \<lparr>Message = ''Empty access key not allowed'', Data = None\<rparr>), w))
       \<and> (sa_AccessKey args \<noteq> [] \<and> sa_SecretKey args = [] \<longrightarrow>
            SetAuth env r args reply w
              = ((reply, Some \<lparr>Message = ''Empty secret key not allowed'', Data = None\<rparr>), w))
       \<and> ''Empty access key not allowed'' \<noteq> ''Empty secret key not allowed''"
  using assms by (simp add: SetAuth_def json2_Message_def)

text \<open>Both rejections, at the concrete environment.\<close>

theorem SetAuth_empty_keys_rejected_witness:
  "isJWTReqAuthenticated demo_env (request_with ''Bearer hs:secret'') demo_world
   \<and> SetAuth demo_env (request_with ''Bearer hs:secret'')
         \<lparr>sa_AccessKey = [], sa_SecretKey = ''new-secret''\<rparr> \<lparr>sa_Token = [], sa_UIVersion = []\<rparr> demo_world
       = ((\<lparr>sa_Token = [], sa_UIVersion = []\<rparr>,
           Some \<lparr>Message = ''Empty access key not allowed'', Data = None\<rparr>), demo_world)
   \<and> SetAuth demo_env (request_with ''Bearer hs:secret'')
         \<lparr>sa_AccessKey = ''new-admin'', sa_SecretKey = []\<rparr> \<lparr>sa_Token = [], sa_UIVersion = []\<rparr> demo_world
       = ((\<lparr>sa_Token = [], sa_UIVersion = []\<rparr>,
           Some \<lparr>Message = ''Empty secret key not allowed'', Data = None\<rparr>), demo_world)"
proof -
  have h: "isJWTReqAuthenticated demo_env (request_with ''Bearer hs:secret'') demo_world"
    by (simp add: verifier_defs demo_defs)
  from h
    SetAuth_empty_keys_rejected [OF h, of "\<lparr>sa_AccessKey = [], sa_SecretKey = ''new-secret''\<rparr>"
      "\<lparr>sa_Token = [], sa_UIVersion = []\<rparr>"]
    SetAuth_empty_keys_rejected [OF h, of "\<lparr>sa_AccessKey = ''new-admin'', sa_SecretKey = []\<rparr>"
      "\<lparr>sa_Token = [], sa_UIVersion = []\<rparr>"]
  show ?thesis by simp
qed

text \<open>
  C7. After an authenticated \<open>SetAuth\<close> with a non-empty access key and a non-empty secret
  key has returned without error, an authenticated \<open>GetAuth\<close> in any world that holds
  the credential \<open>SetAuth\<close> left returns exactly the access key and the secret key that
  were set.
\<close>

theorem SetAuth_GetAuth_roundtrip:
  assumes "isJWTReqAuthenticated env r w"
      and "sa_AccessKey args \<noteq> []" and "sa_SecretKey args \<noteq> []"
      and "SetAuth env r args reply w = ((reply', None), w')"
      and "serverConfig w'' = serverConfig w'"
      and "isJWTReqAuthenticated env r2 w''"
  shows "fst (GetAuth env r2 a greply w'')
           = (greply\<lparr>gt_AccessKey := sa_AccessKey args, gt_SecretKey := sa_SecretKey args,
                      gt_UIVersion := UIVersion env\<rparr>, None)"
proof -
  have "serverConfig w' = \<lparr>AccessKeyID = sa_AccessKey args, SecretAccessKey = sa_SecretKey args\<rparr>"
    using assms(1-4)
    by (auto simp: SetAuth_def serverConfig_SetCredential_def serverConfig_Save_def log_call_def
          Let_def split: prod.splits option.splits if_splits sum.splits)
  with assms(5,6) show ?thesis
    by (simp add: GetAuth_def serverConfig_GetCredential_def)
qed

text \<open>Rotation to \<open>new-admin\<close> / \<open>new-secret\<close>, then a read with the token \<open>SetAuth\<close> issued.\<close>

theorem SetAuth_GetAuth_roundtrip_witness:
  "isJWTReqAuthenticated demo_env (request_with ''Bearer hs:secret'') demo_world
   \<and> SetAuth demo_env (request_with ''Bearer hs:secret'')
        \<lparr>sa_AccessKey = ''new-admin'', sa_SecretKey = ''new-secret''\<rparr>
        \<lparr>sa_Token = [], sa_UIVersion = []\<rparr> demo_world
       = ((\<lparr>sa_Token = ''hs:new-secret'', sa_UIVersion = ''ui-1''\<rparr>, None), demo_world_rotated)
   \<and> isJWTReqAuthenticated demo_env (request_with ''Bearer hs:new-secret'') demo_world_rotated
   \<and> fst (GetAuth demo_env (request_with ''Bearer hs:new-secret'') ()
             \<lparr>gt_AccessKey = [], gt_SecretKey = [], gt_UIVersion = []\<rparr> demo_world_rotated)
       = (\<lparr>gt_AccessKey = ''new-admin'', gt_SecretKey = ''new-secret'', gt_UIVersion = ''ui-1''\<rparr>, None)"
proof -
  have set: "SetAuth demo_env (request_with ''Bearer hs:secret'')
        \<lparr>sa_AccessKey = ''new-admin'', sa_SecretKey = ''new-secret''\<rparr>
        \<lparr>sa_Token = [], sa_UIVersion = []\<rparr> demo_world
       = ((\<lparr>sa_Token = ''hs:new-secret'', sa_UIVersion = ''ui-1''\<rparr>, None), demo_world_rotated)"
    by code_simp
  have auth2: "isJWTReqAuthenticated demo_env (request_with ''Bearer hs:new-secret'') demo_world_rotated"
    by code_simp
  from SetAuth_GetAuth_roundtrip [OF demo_authenticated _ _ set refl auth2, of "()"
      "\<lparr>gt_AccessKey = [], gt_SecretKey = [], gt_UIVersion = []\<rparr>"]
  have "fst (GetAuth demo_env (request_with ''Bearer hs:new-secret'') ()
             \<lparr>gt_AccessKey = [], gt_SecretKey = [], gt_UIVersion = []\<rparr> demo_world_rotated)
       = (\<lparr>gt_AccessKey = ''new-admin'', gt_SecretKey = ''new-secret'', gt_UIVersion = ''ui-1''\<rparr>, None)"
    by (simp add: demo_env_def)
  with demo_authenticated set auth2 show ?thesis by blast
qed

section \<open>The error translator\<close>

text \<open>
  C5. The translator writes the same status and the same description for an invalid
  object name as for an object that is not found: both are the entry of the error table
  for \<open>ErrNoSuchKey\<close>, whatever the table is.
\<close>

theorem invalid_object_name_aliased_to_not_found:
  "writeWebErrorResponse env w (ObjectNameInvalid x) = writeWebErrorResponse env w (ObjectNotFound y)
   \<and> writeWebErrorResponse env w (ObjectNotFound y)
       = w @ [WriteHeader (HTTPStatusCode (getAPIError env ErrNoSuchKey)),
              Write (Description (getAPIError env ErrNoSuchKey))]"
  by (simp add: writeWebErrorResponse_def writeAPIError_def)

text \<open>
  C3. With the error table of the specification, the translator writes one status and
  one description for every error value. The invalid-token error gets the fixed status
  403 and its own message, although the type switch that follows would send it to the
  default case; each of the eight backend variants gets the status and description of
  its own table entry, none of them the internal-error status 500; every other error
  gets the internal-error entry.
\<close>

theorem writeWebErrorResponse_total:
  fixes env :: "'s env"
  shows "(\<exists>status body. writeWebErrorResponse (env\<lparr>getAPIError := spec_getAPIError descr\<rparr>) w err
                          = w @ [WriteHeader status, Write body])
   \<and> writeWebErrorResponse (env\<lparr>getAPIError := spec_getAPIError descr\<rparr>) w ErrInvalidToken
       = w @ [WriteHeader 403, Write (Error env ErrInvalidToken)]
   \<and> writeWebErrorResponse (env\<lparr>getAPIError := spec_getAPIError descr\<rparr>) w (RootPathFull x)
       = w @ [WriteHeader 507, Write (descr ErrRootPathFull)]
   \<and> writeWebErrorResponse (env\<lparr>getAPIError := spec_getAPIError descr\<rparr>) w (BucketNotFound x)
       = w @ [WriteHeader 404, Write (descr ErrNoSuchBucket)]
   \<and> writeWebErrorResponse (env\<lparr>getAPIError := spec_getAPIError descr\<rparr>) w (BucketNameInvalid x)
       = w @ [WriteHeader 400, Write (descr ErrInvalidBucketName)]
   \<and> writeWebErrorResponse (env\<lparr>getAPIError := spec_getAPIError descr\<rparr>) w (BadDigest x)
       = w @ [WriteHeader 400, Write (descr ErrBadDigest)]
   \<and> writeWebErrorResponse (env\<lparr>getAPIError := spec_getAPIError descr\<rparr>) w (IncompleteBody x)
       = w @ [WriteHeader 400, Write (descr ErrIncompleteBody)]
   \<and> writeWebErrorResponse (env\<lparr>getAPIError := spec_getAPIError descr\<rparr>) w (ObjectExistsAsPrefix x)
       = w @ [WriteHeader 409, Write (descr ErrObjectExistsAsPrefix)]
   \<and> writeWebErrorResponse (env\<lparr>getAPIError := spec_getAPIError descr\<rparr>) w (ObjectNotFound x)
       = w @ [WriteHeader 404, Write (descr ErrNoSuchKey)]
   \<and> writeWebErrorResponse (env\<lparr>getAPIError := spec_getAPIError descr\<rparr>) w (ObjectNameInvalid x)
       = w @ [WriteHeader 404, Write (descr ErrNoSuchKey)]
   \<and> writeWebErrorResponse (env\<lparr>getAPIError := spec_getAPIError descr\<rparr>) w (OtherError x)
       = w @ [WriteHeader 500, Write (descr ErrInternalError)]"
proof -
  have "\<exists>status body. writeWebErrorResponse (env\<lparr>getAPIError := spec_getAPIError descr\<rparr>) w err
                          = w @ [WriteHeader status, Write body]"
    by (cases err) (simp_all add: writeWebErrorResponse_def writeAPIError_def)
  then show ?thesis
    by (simp add: writeWebErrorResponse_def writeAPIError_def spec_getAPIError_def
        http_StatusForbidden_def http_StatusBadRequest_def http_StatusNotFound_def
        http_StatusConflict_def http_StatusInternalServerError_def
        http_StatusInsufficientStorage_def)
qed

section \<open>Listing objects\<close>

text \<open>
  C2. Every authenticated \<open>ListObjects\<close> call that returns without error has walked the
  pagination up to its first page that is not truncated, page \<open>j\<close>; every index up to
  \<open>j\<close> is a page the backend returned, and the reply's \<open>Objects\<close> are the entries it was
  given followed by the entries of pages \<open>0, \<dots>, j\<close> in that order, where a page
  contributes its objects in the order of its object list and then its common prefixes
  in the order of its prefix list.
\<close>

theorem ListObjects_concatenates_pages:
  assumes "isJWTReqAuthenticated env r w"
      and "ListObjects env r args reply w = Some ((reply', None), w')"
  shows "\<exists>j. firstLastPage env args ([], backend w) j
           \<and> map Some (pagesUpTo env args ([], backend w) j)
               = map (pageAt env args ([], backend w)) [0..<Suc j]
           \<and> lor_Objects reply'
               = lor_Objects reply @ concat (map pageEntries (pagesUpTo env args ([], backend w) j))"
proof -
  from ListObjects_returns [OF assms] obtain j where j: "firstLastPage env args ([], backend w) j" ..
  from ListObjects_run [OF assms(1) j, of reply] assms(2)
  have "lor_Objects reply'
          = lor_Objects reply @ concat (map pageEntries (pagesUpTo env args ([], backend w) j))"
    by auto
  with j firstLastPage_pages [OF j] show ?thesis by blast
qed

text \<open>The two-page listing of the concrete environment.\<close>

theorem ListObjects_concatenates_pages_witness:
  "isJWTReqAuthenticated demo_env (request_with ''Bearer hs:secret'') demo_world
   \<and> ListObjects demo_env (request_with ''Bearer hs:secret'') demo_args
        \<lparr>lor_Objects = [], lor_UIVersion = []\<rparr> demo_world
       = Some ((\<lparr>lor_Objects = demo_listing, lor_UIVersion = ''ui-1''\<rparr>, None), demo_world_listed)
   \<and> (\<exists>j. firstLastPage demo_env demo_args ([], backend demo_world) j
          \<and> map Some (pagesUpTo demo_env demo_args ([], backend demo_world) j)
               = map (pageAt demo_env demo_args ([], backend demo_world)) [0..<Suc j]
          \<and> demo_listing
               = concat (map pageEntries (pagesUpTo demo_env demo_args ([], backend demo_world) j)))"
  using ListObjects_concatenates_pages [OF demo_authenticated demo_ListObjects]
    demo_authenticated demo_ListObjects
  by simp

text \<open>
  C10. For an authenticated request: if the pagination reaches a page that is not
  truncated after finitely many pages, \<open>ListObjects\<close> returns, without error; it returns
  without error only if there is such a page; when page \<open>j\<close> is the first page that is
  not truncated, the calls made are exactly the \<open>j + 1\<close> requests of the pagination up
  to \<open>j\<close>, no fewer and no more; and the pagination starts with the empty marker and asks
  for page \<open>i + 1\<close> with the \<open>NextMarker\<close> of page \<open>i\<close>.
\<close>

theorem ListObjects_pagination:
  assumes "isJWTReqAuthenticated env r w"
  shows "((\<exists>k. lastPageAt env args ([], backend w) k) \<longrightarrow>
            (\<exists>reply' w'. ListObjects env r args reply w = Some ((reply', None), w')))
       \<and> ((\<exists>reply' w'. ListObjects env r args reply w = Some ((reply', None), w')) \<longrightarrow>
            (\<exists>k. lastPageAt env args ([], backend w) k))
       \<and> (\<forall>j. firstLastPage env args ([], backend w) j \<longrightarrow>
            (\<exists>reply' w'. ListObjects env r args reply w = Some ((reply', None), w')
               \<and> calls w' = calls w @ requestsUpTo env args ([], backend w) j))
       \<and> markerAt env args ([], backend w) 0 = []
       \<and> (\<forall>i lo. pageAt env args ([], backend w) i = Some lo \<longrightarrow>
            markerAt env args ([], backend w) (Suc i) = NextMarker lo)"
proof (intro conjI allI impI)
  assume "\<exists>k. lastPageAt env args ([], backend w) k"
  then obtain j where "firstLastPage env args ([], backend w) j"
    using lastPageAt_least by blast
  from ListObjects_run [OF assms this, of reply]
  show "\<exists>reply' w'. ListObjects env r args reply w = Some ((reply', None), w')"
    by blast
next
  assume "\<exists>reply' w'. ListObjects env r args reply w = Some ((reply', None), w')"
  then obtain j where "firstLastPage env args ([], backend w) j"
    using ListObjects_returns [OF assms] by blast
  then show "\<exists>k. lastPageAt env args ([], backend w) k"
    unfolding firstLastPage_iff by blast
next
  fix j
  assume "firstLastPage env args ([], backend w) j"
  from ListObjects_run [OF assms this, of reply]
  show "\<exists>reply' w'. ListObjects env r args reply w = Some ((reply', None), w')
          \<and> calls w' = calls w @ requestsUpTo env args ([], backend w) j"
    by force
next
  show "markerAt env args ([], backend w) 0 = []"
    by (simp add: markerAt_0)
next
  fix i lo
  assume "pageAt env args ([], backend w) i = Some lo"
  then show "markerAt env args ([], backend w) (Suc i) = NextMarker lo"
    by (rule markerAt_Suc)
qed

text \<open>The concrete listing: its second page is the first that is not truncated.\<close>

theorem ListObjects_pagination_witness:
  "isJWTReqAuthenticated demo_env (request_with ''Bearer hs:secret'') demo_world
   \<and> lastPageAt demo_env demo_args ([], backend demo_world) (Suc 0)
   \<and> firstLastPage demo_env demo_args ([], backend demo_world) (Suc 0)
   \<and> pageAt demo_env demo_args ([], backend demo_world) 0
       = Some \<lparr>IsTruncated = True, NextMarker = ''b.txt'',
               Objects = [\<lparr>oi_Name = ''a.txt'', oi_ModifiedTime = 5, oi_Size = 10,
                           oi_ContentType = ''text/plain''\<rparr>],
               Prefixes = [''dir/'']\<rparr>
   \<and> markerAt demo_env demo_args ([], backend demo_world) (Suc 0) = ''b.txt''
   \<and> (\<exists>reply' w'. ListObjects demo_env (request_with ''Bearer hs:secret'') demo_args
                      \<lparr>lor_Objects = [], lor_UIVersion = []\<rparr> demo_world = Some ((reply', None), w')
          \<and> calls w' = [Call_ListObjects ''photos'' [] [] ''/'' 1000,
                         Call_ListObjects ''photos'' [] ''b.txt'' ''/'' 1000])"
proof -
  have last: "lastPageAt demo_env demo_args ([], backend demo_world) (Suc 0)"
    by code_simp
  have page: "pageAt demo_env demo_args ([], backend demo_world) 0
       = Some \<lparr>IsTruncated = True, NextMarker = ''b.txt'',
               Objects = [\<lparr>oi_Name = ''a.txt'', oi_ModifiedTime = 5, oi_Size = 10,
                           oi_ContentType = ''text/plain''\<rparr>],
               Prefixes = [''dir/'']\<rparr>"
    by code_simp
  have calls0: "calls demo_world = []"
    by (simp add: demo_world_def)
  note pagination = ListObjects_pagination [OF demo_authenticated, of demo_args
      "\<lparr>lor_Objects = [], lor_UIVersion = []\<rparr>"]
  from pagination demo_firstLastPage
  have "\<exists>reply' w'. ListObjects demo_env (request_with ''Bearer hs:secret'') demo_args
                      \<lparr>lor_Objects = [], lor_UIVersion = []\<rparr> demo_world = Some ((reply', None), w')
          \<and> calls w' = calls demo_world @ requestsUpTo demo_env demo_args ([], backend demo_world) (Suc 0)"
    by blast
  then have run: "\<exists>reply' w'. ListObjects demo_env (request_with ''Bearer hs:secret'') demo_args
                      \<lparr>lor_Objects = [], lor_UIVersion = []\<rparr> demo_world = Some ((reply', None), w')
          \<and> calls w' = [Call_ListObjects ''photos'' [] [] ''/'' 1000,
                         Call_ListObjects ''photos'' [] ''b.txt'' ''/'' 1000]"
    by (simp add: demo_requestsUpTo demo_world_listed_def calls0)
  from pagination page
  have "markerAt demo_env demo_args ([], backend demo_world) (Suc 0) = ''b.txt''"
    by force
  with demo_authenticated last page demo_firstLastPage run show ?thesis
    by blast
qed

text \<open>
  C9. The entries of common prefixes carry only the key. The entries of objects carry
  the key, the modification time and the size of the backend object, but the loop never
  assigns \<open>ContentType\<close>: both objects of the concrete listing have the content type
  \<open>text/plain\<close> in the backend's pages and the empty content type in the reply.
\<close>

theorem ListObjects_leaves_content_type_empty:
  "pagesUpTo demo_env demo_args ([], backend demo_world) (Suc 0)
     = [\<lparr>IsTruncated = True, NextMarker = ''b.txt'',
          Objects = [\<lparr>oi_Name = ''a.txt'', oi_ModifiedTime = 5, oi_Size = 10,
                      oi_ContentType = ''text/plain''\<rparr>],
          Prefixes = [''dir/'']\<rparr>,
        \<lparr>IsTruncated = False, NextMarker = [],
          Objects = [\<lparr>oi_Name = ''c.txt'', oi_ModifiedTime = 7, oi_Size = 20,
                      oi_ContentType = ''text/plain''\<rparr>],
          Prefixes = []\<rparr>]
   \<and> ListObjects demo_env (request_with ''Bearer hs:secret'') demo_args
        \<lparr>lor_Objects = [], lor_UIVersion = []\<rparr> demo_world
       = Some ((\<lparr>lor_Objects =
                   [\<lparr>Key = ''a.txt'', LastModified = 5, Size = 10, ContentType = []\<rparr>,
                    \<lparr>Key = ''dir/'', LastModified = 0, Size = 0, ContentType = []\<rparr>,
                    \<lparr>Key = ''c.txt'', LastModified = 7, Size = 20, ContentType = []\<rparr>],
                 lor_UIVersion = ''ui-1''\<rparr>, None), demo_world_listed)"
  by code_simp

section \<open>Listing buckets\<close>

text \<open>
  C6. An authenticated \<open>ListBuckets\<close> over a backend bucket list appends to the reply one
  entry, with name and creation date, for each backend bucket whose name differs from
  the base path segment of the reserved bucket, in the backend's order, and nothing
  else: an entry of the reply with the reserved name was in the reply before the call,
  and every other backend bucket is in the reply.
\<close>

theorem ListBuckets_hides_reserved_bucket:
  assumes "isJWTReqAuthenticated env r w"
      and "fst (fs_ListBuckets env (backend w)) = Inr buckets"
  shows "\<exists>reply' w'. ListBuckets env r args reply w = ((reply', None), w')
           \<and> Buckets reply'
               = Buckets reply
                 @ map (\<lambda>b. \<lparr>Name = bm_Name b, CreationDate = bm_Created b\<rparr>)
                     (filter (\<lambda>b. bm_Name b \<noteq> path_Base (reservedBucket env)) buckets)
           \<and> (\<forall>bi\<in>set (Buckets reply').
                 Name bi = path_Base (reservedBucket env) \<longrightarrow> bi \<in> set (Buckets reply))
           \<and> (\<forall>b\<in>set buckets.
                 bm_Name b \<noteq> path_Base (reservedBucket env) \<longrightarrow>
                 \<lparr>Name = bm_Name b, CreationDate = bm_Created b\<rparr> \<in> set (Buckets reply'))"
proof -
  obtain s' where page: "fs_ListBuckets env (backend w) = (Inr buckets, s')"
    using assms(2) by (cases "fs_ListBuckets env (backend w)") simp
  let ?reply' = "reply\<lparr>Buckets := appendBuckets (path_Base (reservedBucket env)) buckets (Buckets reply),
                        lb_UIVersion := UIVersion env\<rparr>"
  have "ListBuckets env r args reply w
          = ((?reply', None), log_call Call_ListBuckets (w\<lparr>backend := s'\<rparr>))"
    using assms(1) page by (simp add: ListBuckets_def)
  moreover have "Buckets ?reply'
               = Buckets reply
                 @ map (\<lambda>b. \<lparr>Name = bm_Name b, CreationDate = bm_Created b\<rparr>)
                     (filter (\<lambda>b. bm_Name b \<noteq> path_Base (reservedBucket env)) buckets)"
    by (simp add: appendBuckets_eq)
  ultimately show ?thesis
    by (intro exI [of _ ?reply'] exI [of _ "log_call Call_ListBuckets (w\<lparr>backend := s'\<rparr>)"])
       auto
qed

text \<open>The backend lists \<open>photos\<close>, \<open>minio\<close> and \<open>docs\<close>; the reserved bucket is \<open>/minio\<close>.\<close>

theorem ListBuckets_hides_reserved_bucket_witness:
  "isJWTReqAuthenticated demo_env (request_with ''Bearer hs:secret'') demo_world
   \<and> path_Base (reservedBucket demo_env) = ''minio''
   \<and> fst (fs_ListBuckets demo_env (backend demo_world))
       = Inr [\<lparr>bm_Name = ''photos'', bm_Created = 3\<rparr>, \<lparr>bm_Name = ''minio'', bm_Created = 1\<rparr>,
              \<lparr>bm_Name = ''docs'', bm_Created = 4\<rparr>]
   \<and> (\<exists>reply' w'. ListBuckets demo_env (request_with ''Bearer hs:secret'') ()
                      \<lparr>Buckets = [], lb_UIVersion = []\<rparr> demo_world = ((reply', None), w')
          \<and> Buckets reply' = [\<lparr>Name = ''photos'', CreationDate = 3\<rparr>,
                               \<lparr>Name = ''docs'', CreationDate = 4\<rparr>])"
proof -
  have base: "path_Base (reservedBucket demo_env) = ''minio''"
    by (simp add: demo_env_def path_Base_def)
  have buckets: "fst (fs_ListBuckets demo_env (backend demo_world))
       = Inr [\<lparr>bm_Name = ''photos'', bm_Created = 3\<rparr>, \<lparr>bm_Name = ''minio'', bm_Created = 1\<rparr>,
              \<lparr>bm_Name = ''docs'', bm_Created = 4\<rparr>]"
    by (simp add: demo_env_def)
  from ListBuckets_hides_reserved_bucket [OF demo_authenticated buckets, of "()"
      "\<lparr>Buckets = [], lb_UIVersion = []\<rparr>"]
  have "\<exists>reply' w'. ListBuckets demo_env (request_with ''Bearer hs:secret'') ()
                      \<lparr>Buckets = [], lb_UIVersion = []\<rparr> demo_world = ((reply', None), w')
          \<and> Buckets reply' = [\<lparr>Name = ''photos'', CreationDate = 3\<rparr>,
                               \<lparr>Name = ''docs'', CreationDate = 4\<rparr>]"
    unfolding base by simp blast
  with demo_authenticated base buckets show ?thesis by blast
qed

end
